theory Spec2Isabelle
  imports Complex_Main
begin

section \<open>The training driver of drlfoam (examples/run\_training.py)\<close>

text \<open>
  The driver \<^verbatim>\<open>main\<close> sequences calls on collaborators that live outside the file
  (the buffer, the agent, the environment, the file system, the logger). The embedding
  records every such call as an event, in program order, and returns the events together
  with the outcome: a normal return or the exception that left \<^verbatim>\<open>main\<close>. Values the
  driver reads back from a collaborator are fields of a \<open>world\<close> record. A call on a
  collaborator is taken to return; the one exception is \<^verbatim>\<open>check_finish_time\<close>, whose purpose
  is to stop the run, and whose outcome is a field of the world as well.
\<close>

subsection \<open>Strings and paths\<close>

type_synonym path = string

text \<open>\<^verbatim>\<open>str.lower()\<close> on the characters HOL strings have (bytes): the letters A to Z move
  to a to z, every other character stays.\<close>

definition lower_char :: "char \<Rightarrow> char" where
  "lower_char c =
     (case map_of (zip ''ABCDEFGHIJKLMNOPQRSTUVWXYZ'' ''abcdefghijklmnopqrstuvwxyz'') c of
        Some d \<Rightarrow> d
      | None \<Rightarrow> c)"

definition lower :: "string \<Rightarrow> string" where
  "lower s = map lower_char s"

text \<open>\<^verbatim>\<open>posixpath.join(a, *p)\<close>: a component that starts with the separator replaces what
  was built so far; otherwise it is appended, after a separator unless the path is empty or
  ends with one.\<close>

definition join_step :: "path \<Rightarrow> string \<Rightarrow> path" where
  "join_step p b =
     (if b \<noteq> [] \<and> hd b = CHR ''/'' then b
      else if p = [] \<or> last p = CHR ''/'' then p @ b
      else p @ ''/'' @ b)"

definition join :: "path \<Rightarrow> string list \<Rightarrow> path" where
  "join a p = foldl join_step a p"

text \<open>\<^verbatim>\<open>sep.join(xs)\<close> of Python strings.\<close>

fun str_join :: "string \<Rightarrow> string list \<Rightarrow> string" where
  "str_join sep [] = []"
| "str_join sep [x] = x"
| "str_join sep (x # y # ys) = x @ sep @ str_join sep (y # ys)"

text \<open>\<^verbatim>\<open>str(e)\<close> of a Python integer, as the f-strings format the episode index: decimal
  digits, most significant first, with a minus sign for a negative number.\<close>

definition digit_char :: "nat \<Rightarrow> char" where
  "digit_char d = ''0123456789'' ! d"

function str_nat :: "nat \<Rightarrow> string" where
  "str_nat n = (if n < 10 then [digit_char n] else str_nat (n div 10) @ [digit_char (n mod 10)])"
  by pat_completeness auto
termination
  by (relation "measure (\<lambda>n. n)") auto

declare str_nat.simps [simp del]

definition str_int :: "int \<Rightarrow> string" where
  "str_int i = (if i < 0 then ''-'' @ str_nat (nat (- i)) else str_nat (nat i))"

text \<open>\<^verbatim>\<open>range(a, b)\<close> over Python integers.\<close>

definition range_py :: "int \<Rightarrow> int \<Rightarrow> int list" where
  "range_py a b = [a..b - 1]"

subsection \<open>Arguments, collaborators, events\<close>

text \<open>The namespace \<^verbatim>\<open>parseArguments\<close> returns; one field per option, named
  after its long name. The counts are Python integers; the finish time is a float, of
  which the driver makes no use but to pass it on.\<close>

record args =
  arg_output :: string
  arg_environment :: string
  arg_iter :: int
  arg_runners :: int
  arg_buffer :: int
  arg_finish :: real
  arg_timeout :: int
  arg_checkpoint :: string
  arg_simulation :: string

text \<open>What the driver reads from outside:
  \<^item> \<open>BASE_PATH\<close>: the value of the environment variable \<^verbatim>\<open>DRL_BASE\<close> (empty if unset);
  \<^item> \<open>path_exists\<close>: \<^verbatim>\<open>os.path.exists\<close>;
  \<^item> \<open>finish_time_ok\<close>: whether \<^verbatim>\<open>check_finish_time\<close> (imported from the package, not part
    of the file) returns;
  \<^item> \<open>history_episode\<close>: \<^verbatim>\<open>agent.history["episode"]\<close> once \<^verbatim>\<open>load_state\<close> has run;
  \<^item> \<open>base_end_time\<close>: \<^verbatim>\<open>buffer.base_env.end_time\<close> as read in line 159;
  \<^item> \<open>observations\<close>: \<^verbatim>\<open>buffer.observations\<close> after the fill of the given episode, three
    lists of tensors (states, actions, rewards);
  \<^item> \<open>trace_policy\<close>: the object \<^verbatim>\<open>agent.trace_policy()\<close> returns in the given episode.
  Tensors \<open>'t\<close> and policies \<open>'p\<close> are opaque to the driver.\<close>

record ('t, 'p) world =
  BASE_PATH :: string
  path_exists :: "path \<Rightarrow> bool"
  finish_time_ok :: bool
  history_episode :: "int list"
  base_end_time :: real
  observations :: "int \<Rightarrow> 't list \<times> 't list \<times> 't list"
  trace_policy :: "int \<Rightarrow> 'p"

text \<open>One event per call on a collaborator or assignment to one of its attributes.\<close>

datatype ('t, 'p) event =
    Makedirs path
  | Copytree path path
  | New_environment string
  | Set_env_path path
  | Check_finish_time string real string
  | New_LocalBuffer path int int int
  | New_SlurmConfig
  | New_SlurmBuffer path int int int
  | New_PPOAgent string
  | Log_info string
  | Load_state path
  | Set_n_fills int
  | Create_dummy_policy
  | Prepare
  | Get_end_time
  | Set_start_time real
  | Set_end_time real
  | Reset
  | Fill
  | Get_observations
  | Log_statistics "'t list" "'t list"
  | Update "'t list" "'t list" "'t list"
  | Save_state path
  | Trace_policy
  | Update_policy 'p
  | Save_policy 'p path
  | Log_training_time

text \<open>The exceptions that can leave \<^verbatim>\<open>main\<close>. \<open>Finish_time_rejected\<close> stands for
  \<^verbatim>\<open>check_finish_time\<close> not returning.\<close>

datatype error =
    ValueError string
  | IndexError
  | ZeroDivisionError
  | Finish_time_rejected

text \<open>A computation: the events it performed and how it ended.\<close>

type_synonym ('t, 'p, 'a) run = "('t, 'p) event list \<times> (error + 'a)"

definition emit :: "('t, 'p) event list \<Rightarrow> ('t, 'p, unit) run" where
  "emit evs = (evs, Inr ())"

definition raise :: "error \<Rightarrow> ('t, 'p, 'a) run" where
  "raise e = ([], Inl e)"

definition bind_run :: "('t, 'p, 'a) run \<Rightarrow> ('a \<Rightarrow> ('t, 'p, 'b) run) \<Rightarrow> ('t, 'p, 'b) run" where
  "bind_run m f =
     (case m of
        (tr, Inl e) \<Rightarrow> (tr, Inl e)
      | (tr, Inr x) \<Rightarrow> (case f x of (tr', r) \<Rightarrow> (tr @ tr', r)))"

subsection \<open>The module\<close>

definition SIMULATION_ENVIRONMENTS :: "string list" where
  "SIMULATION_ENVIRONMENTS = [''rotatingCylinder2D'', ''rotatingPinball2D'']"

text \<open>\<^verbatim>\<open>print_statistics\<close>, lines 62 to 69. The three list comprehensions read the tensors
  (floating-point tensors, on which \<^verbatim>\<open>mean\<close> and \<^verbatim>\<open>std\<close> return);
  each message divides by the length of its list, the reward message first, so an empty
  \<open>rewards\<close> or \<open>actions\<close> raises \<^verbatim>\<open>ZeroDivisionError\<close> before anything is logged. The text of
  the message is floating-point formatting of the means and deviations and is not modelled:
  the event keeps the arguments the message is computed from. Nothing is returned.\<close>

definition print_statistics :: "'t list \<Rightarrow> 't list \<Rightarrow> ('t, 'p, unit) run" where
  "print_statistics actions rewards =
     (if length rewards = 0 then raise ZeroDivisionError
      else if length actions = 0 then raise ZeroDivisionError
      else emit [Log_statistics actions rewards])"

text \<open>Lines 111 to 121: the check of the simulation name, the copy of the base case, the
  environment object.\<close>

definition unknown_simulation_msg :: "string \<Rightarrow> string" where
  "unknown_simulation_msg simulation =
     ''Unknown simulation environment '' @ simulation @
     ''Available options are:'' @ [CHR 0x0A, CHR 0x0A] @
     str_join [CHR 0x0A] SIMULATION_ENVIRONMENTS @ [CHR 0x0A]"

definition copy_base_env :: "('t, 'p) world \<Rightarrow> path \<Rightarrow> string \<Rightarrow> ('t, 'p, unit) run" where
  "copy_base_env w training_path simulation =
     (if simulation \<notin> set SIMULATION_ENVIRONMENTS
      then raise (ValueError (unknown_simulation_msg simulation))
      else bind_run
        (if \<not> path_exists w (join training_path [''base''])
         then emit [Copytree (join (BASE_PATH w) [''openfoam'', ''test_cases'', simulation])
                             (join training_path [''base''])]
         else emit [])
        (\<lambda>_. emit [New_environment simulation, Set_env_path (join training_path [''base''])]))"

text \<open>Line 124.\<close>

definition check_finish_time :: "('t, 'p) world \<Rightarrow> real \<Rightarrow> string \<Rightarrow> ('t, 'p, unit) run" where
  "check_finish_time w end_time simulation =
     bind_run (emit [Check_finish_time (BASE_PATH w) end_time simulation])
       (\<lambda>_. if finish_time_ok w then emit [] else raise Finish_time_rejected)"

text \<open>Lines 126 to 139.\<close>

definition unknown_executer_msg :: "string \<Rightarrow> string" where
  "unknown_executer_msg executer =
     ''Unknown executer '' @ executer @ ''; available options are 'local' and 'slurm'.''"

definition create_buffer :: "path \<Rightarrow> int \<Rightarrow> int \<Rightarrow> int \<Rightarrow> string \<Rightarrow> ('t, 'p, unit) run" where
  "create_buffer training_path buffer_size n_runners timeout executer =
     (if executer = ''local''
      then emit [New_LocalBuffer training_path buffer_size n_runners timeout]
      else if executer = ''slurm''
      then emit [New_SlurmConfig, New_SlurmBuffer training_path buffer_size n_runners timeout]
      else raise (ValueError (unknown_executer_msg executer)))"

text \<open>Lines 145 to 157; the result is \<^verbatim>\<open>starting_episode\<close>. Indexing an empty history with
  \<^verbatim>\<open>[-1]\<close> raises \<^verbatim>\<open>IndexError\<close>.\<close>

definition load_checkpoint :: "('t, 'p) world \<Rightarrow> path \<Rightarrow> string \<Rightarrow> ('t, 'p, int) run" where
  "load_checkpoint w training_path checkpoint_file =
     (if checkpoint_file \<noteq> []
      then bind_run
        (emit [Log_info (''Loading checkpoint from file '' @ checkpoint_file),
               Load_state (join training_path [checkpoint_file])])
        (\<lambda>_. if history_episode w = [] then raise IndexError
              else (let starting_episode = last (history_episode w) + 1
                    in ([Set_n_fills starting_episode], Inr starting_episode)))
      else ([Create_dummy_policy, Prepare], Inr 0))"

text \<open>The body of the loop, lines 166 to 176, for episode \<open>e\<close>.\<close>

definition episode :: "('t, 'p) world \<Rightarrow> path \<Rightarrow> int \<Rightarrow> int \<Rightarrow> ('t, 'p, unit) run" where
  "episode w training_path episodes e =
     bind_run (emit [Log_info (''Start of episode '' @ str_int e), Fill, Get_observations])
       (\<lambda>_. case observations w e of (states, actions, rewards) \<Rightarrow>
          bind_run (print_statistics actions rewards)
            (\<lambda>_. bind_run
               (emit [Update states actions rewards,
                      Save_state (join training_path [''checkpoint_'' @ str_int e @ ''.pt'']),
                      Trace_policy,
                      Update_policy (trace_policy w e),
                      Save_policy (trace_policy w e)
                        (join training_path [''policy_trace_'' @ str_int e @ ''.pt''])])
               (\<lambda>_. if \<not> e = episodes - 1 then emit [Reset] else emit [])))"

text \<open>The \<^verbatim>\<open>for\<close> loop over the episodes that are left; an exception ends it.\<close>

fun training_loop :: "('t, 'p) world \<Rightarrow> path \<Rightarrow> int \<Rightarrow> int list \<Rightarrow> ('t, 'p, unit) run" where
  "training_loop w training_path episodes [] = emit []"
| "training_loop w training_path episodes (e # es) =
     bind_run (episode w training_path episodes e)
       (\<lambda>_. training_loop w training_path episodes es)"

text \<open>\<^verbatim>\<open>main\<close> up to the comment \<^verbatim>\<open># begin training\<close>, lines 97 to 161; the result is
  \<^verbatim>\<open>starting_episode\<close>.\<close>

definition set_up :: "('t, 'p) world \<Rightarrow> args \<Rightarrow> ('t, 'p, int) run" where
  "set_up w args =
     (let training_path = arg_output args;
          buffer_size = arg_buffer args;
          n_runners = arg_runners args;
          end_time = arg_finish args;
          executer = lower (arg_environment args);
          timeout = arg_timeout args;
          checkpoint_file = arg_checkpoint args;
          simulation = arg_simulation args
      in bind_run (emit [Makedirs training_path]) (\<lambda>_.
         bind_run (copy_base_env w training_path simulation) (\<lambda>_.
         bind_run (check_finish_time w end_time simulation) (\<lambda>_.
         bind_run (create_buffer training_path buffer_size n_runners timeout executer) (\<lambda>_.
         bind_run (emit [New_PPOAgent simulation]) (\<lambda>_.
         bind_run (load_checkpoint w training_path checkpoint_file) (\<lambda>starting_episode.
         bind_run (emit [Get_end_time, Set_start_time (base_end_time w),
                         Set_end_time end_time, Reset]) (\<lambda>_.
         ([], Inr starting_episode)))))))))"

text \<open>\<^verbatim>\<open>main\<close>, lines 96 to 177: the set-up, the loop over
  \<^verbatim>\<open>range(starting_episode, episodes)\<close>, the closing log line.\<close>

definition main :: "('t, 'p) world \<Rightarrow> args \<Rightarrow> ('t, 'p, unit) run" where
  "main w args =
     (let training_path = arg_output args;
          episodes = arg_iter args
      in bind_run (set_up w args) (\<lambda>starting_episode.
         bind_run (training_loop w training_path episodes (range_py starting_episode episodes)) (\<lambda>_.
         emit [Log_training_time])))"


subsection \<open>Notions used to state the properties\<close>

text \<open>An episode has samples when the fill left at least one action and one reward
  tensor in \<^verbatim>\<open>buffer.observations\<close>.\<close>

definition has_samples :: "('t, 'p) world \<Rightarrow> int \<Rightarrow> bool" where
  "has_samples w e =
     (case observations w e of (states, actions, rewards) \<Rightarrow> actions \<noteq> [] \<and> rewards \<noteq> [])"

text \<open>The events of an episode that has samples, in the order the specification lists its
  steps (section 4.4, steps 1 to 6); the lemmas below compare it with what \<open>episode\<close>
  does.\<close>

definition episode_sequence :: "('t, 'p) world \<Rightarrow> path \<Rightarrow> int \<Rightarrow> int \<Rightarrow> ('t, 'p) event list" where
  "episode_sequence w training_path episodes e =
     (case observations w e of (states, actions, rewards) \<Rightarrow>
        [Log_info (''Start of episode '' @ str_int e),
         Fill,
         Get_observations,
         Log_statistics actions rewards,
         Update states actions rewards,
         Save_state (join training_path [''checkpoint_'' @ str_int e @ ''.pt'']),
         Trace_policy,
         Update_policy (trace_policy w e),
         Save_policy (trace_policy w e) (join training_path [''policy_trace_'' @ str_int e @ ''.pt''])]
        @ (if e = episodes - 1 then [] else [Reset]))"

text \<open>The events of lines 109 to 124, and those of the buffer's construction, in a run that
  passes the checks.\<close>

definition base_events :: "('t, 'p) world \<Rightarrow> args \<Rightarrow> ('t, 'p) event list" where
  "base_events w a =
     [Makedirs (arg_output a)] @
     (if \<not> path_exists w (join (arg_output a) [''base''])
      then [Copytree (join (BASE_PATH w) [''openfoam'', ''test_cases'', arg_simulation a])
                     (join (arg_output a) [''base''])]
      else []) @
     [New_environment (arg_simulation a), Set_env_path (join (arg_output a) [''base'']),
      Check_finish_time (BASE_PATH w) (arg_finish a) (arg_simulation a)]"

definition buffer_events :: "args \<Rightarrow> ('t, 'p) event list" where
  "buffer_events a =
     (if lower (arg_environment a) = ''local''
      then [New_LocalBuffer (arg_output a) (arg_buffer a) (arg_runners a) (arg_timeout a)]
      else [New_SlurmConfig,
            New_SlurmBuffer (arg_output a) (arg_buffer a) (arg_runners a) (arg_timeout a)])"

text \<open>Classes of events: those of the loop and the closing log line; those of the
  configuration steps (lines 109 to 143); those that construct a buffer or an agent or start
  simulations; those the lines before the loop can perform.\<close>

fun training_event :: "('t, 'p) event \<Rightarrow> bool" where
  "training_event (Log_info m) = True"
| "training_event Fill = True"
| "training_event Get_observations = True"
| "training_event (Log_statistics actions rewards) = True"
| "training_event (Update states actions rewards) = True"
| "training_event (Save_state p) = True"
| "training_event Trace_policy = True"
| "training_event (Update_policy pol) = True"
| "training_event (Save_policy pol p) = True"
| "training_event Reset = True"
| "training_event Log_training_time = True"
| "training_event _ = False"

fun configuration_event :: "('t, 'p) event \<Rightarrow> bool" where
  "configuration_event (Makedirs p) = True"
| "configuration_event (Copytree p q) = True"
| "configuration_event (New_environment s) = True"
| "configuration_event (Set_env_path p) = True"
| "configuration_event (Check_finish_time b t s) = True"
| "configuration_event (New_LocalBuffer p b r t) = True"
| "configuration_event New_SlurmConfig = True"
| "configuration_event (New_SlurmBuffer p b r t) = True"
| "configuration_event (New_PPOAgent s) = True"
| "configuration_event _ = False"


fun set_up_event :: "('t, 'p) event \<Rightarrow> bool" where
  "set_up_event (Update states actions rewards) = False"
| "set_up_event Fill = False"
| "set_up_event Get_observations = False"
| "set_up_event (Log_statistics actions rewards) = False"
| "set_up_event (Save_state p) = False"
| "set_up_event Trace_policy = False"
| "set_up_event (Update_policy pol) = False"
| "set_up_event (Save_policy pol p) = False"
| "set_up_event Log_training_time = False"
| "set_up_event _ = True"



text \<open>The paths a trace hands to \<^verbatim>\<open>agent.save_state\<close> and to \<^verbatim>\<open>current_policy.save\<close>, in
  the order of the calls.\<close>

fun saved_state :: "('t, 'p) event \<Rightarrow> path list" where
  "saved_state (Save_state p) = [p]"
| "saved_state _ = []"

fun saved_policy :: "('t, 'p) event \<Rightarrow> path list" where
  "saved_policy (Save_policy pol p) = [p]"
| "saved_policy _ = []"

definition saved_states :: "('t, 'p) event list \<Rightarrow> path list" where
  "saved_states tr = concat (map saved_state tr)"

definition saved_policies :: "('t, 'p) event list \<Rightarrow> path list" where
  "saved_policies tr = concat (map saved_policy tr)"

subsection \<open>Concrete runs\<close>

text \<open>A world in which nothing exists yet in the training directory, the finish time is
  accepted, the loaded history ends with episode 2 and every fill returns two trajectories;
  the arguments of the end-to-end scenario of the specification; the same arguments with a
  checkpoint to resume from; and with a simulation name that is not known.\<close>

definition example_world :: "(nat, nat) world" where
  "example_world =
     \<lparr>BASE_PATH = ''/opt/drlfoam'', path_exists = (\<lambda>_. False), finish_time_ok = True,
      history_episode = [0, 1, 2], base_end_time = 4,
      observations = (\<lambda>e. ([10, 11], [20, 21], [30, 31])), trace_policy = (\<lambda>e. nat e)\<rparr>"

definition example_args :: args where
  "example_args =
     \<lparr>arg_output = ''test_training'', arg_environment = ''local'', arg_iter = 2, arg_runners = 4,
      arg_buffer = 4, arg_finish = 8, arg_timeout = 60, arg_checkpoint = [],
      arg_simulation = ''rotatingCylinder2D''\<rparr>"

definition resume_args :: args where
  "resume_args = example_args\<lparr>arg_iter := 5, arg_checkpoint := ''checkpoint_2.pt''\<rparr>"


text \<open>The same world with a fill that returns no trajectory: in episode 1 only, and in
  every episode.\<close>

definition one_empty_world :: "(nat, nat) world" where
  "one_empty_world =
     example_world\<lparr>observations := (\<lambda>e. if e = 1 then ([], [], []) else ([10], [20], [30]))\<rparr>"

definition no_trajectory_world :: "(nat, nat) world" where
  "no_trajectory_world = example_world\<lparr>observations := (\<lambda>e. ([], [], []))\<rparr>"


section \<open>Properties\<close>

subsection \<open>Sequencing of runs\<close>

text \<open>How \<open>bind_run\<close> composes, what an episode and the loop do with and without samples,
  and what the lines before the loop do in each of their six outcomes.\<close>

lemma bind_run_emit: "bind_run (emit evs) f = (evs @ fst (f ()), snd (f ()))"
  by (simp add: bind_run_def emit_def split: prod.splits)

lemma bind_run_raise: "bind_run (raise e) f = ([], Inl e)"
  by (simp add: bind_run_def raise_def)

lemma fst_emit: "fst (emit evs) = evs" and snd_emit: "snd (emit evs) = Inr ()"
  by (simp_all add: emit_def)

lemma fst_raise: "fst (raise e) = []" and snd_raise: "snd (raise e) = Inl e"
  by (simp_all add: raise_def)

lemma bind_run_Inr: "bind_run (tr, Inr x) f = (tr @ fst (f x), snd (f x))"
  by (simp add: bind_run_def split: prod.splits)

lemma bind_run_Inl: "bind_run (tr, Inl e) f = (tr, Inl e)"
  by (simp add: bind_run_def)

lemmas run_simps = bind_run_emit bind_run_raise bind_run_Inr bind_run_Inl
  fst_emit snd_emit fst_raise snd_raise

lemma fst_bind_run:
  "fst (bind_run m f) = fst m @ (case snd m of Inl e \<Rightarrow> [] | Inr x \<Rightarrow> fst (f x))"
  by (cases m) (simp add: bind_run_def split: sum.splits prod.splits)

lemma snd_bind_run:
  "snd (bind_run m f) = (case snd m of Inl e \<Rightarrow> Inl e | Inr x \<Rightarrow> snd (f x))"
  by (cases m) (simp add: bind_run_def split: sum.splits prod.splits)

lemma episode_samples:
  assumes "has_samples w e"
  shows "episode w tp n e = (episode_sequence w tp n e, Inr ())"
proof -
  obtain s ac r where obs: "observations w e = (s, ac, r)"
    by (cases "observations w e") auto
  with assms have "ac \<noteq> []" "r \<noteq> []"
    by (simp_all add: has_samples_def)
  then show ?thesis
    by (simp add: episode_def episode_sequence_def obs print_statistics_def run_simps)
qed

lemma episode_no_samples:
  assumes "\<not> has_samples w e"
  shows "episode w tp n e =
     ([Log_info (''Start of episode '' @ str_int e), Fill, Get_observations], Inl ZeroDivisionError)"
proof -
  obtain s ac r where obs: "observations w e = (s, ac, r)"
    by (cases "observations w e") auto
  with assms have "r = [] \<or> ac = []"
    by (auto simp add: has_samples_def)
  then show ?thesis
    by (auto simp add: episode_def obs print_statistics_def run_simps)
qed

lemma training_loop_complete:
  "\<forall>e\<in>set es. has_samples w e \<Longrightarrow>
   training_loop w tp n es = (concat (map (episode_sequence w tp n) es), Inr ())"
  by (induction es) (simp_all add: fst_emit snd_emit prod_eq_iff episode_samples bind_run_Inr)

lemma training_loop_fails:
  "\<forall>e\<in>set es1. has_samples w e \<Longrightarrow> \<not> has_samples w e \<Longrightarrow>
   training_loop w tp n (es1 @ e # es2) =
     (concat (map (episode_sequence w tp n) es1) @
      [Log_info (''Start of episode '' @ str_int e), Fill, Get_observations], Inl ZeroDivisionError)"
  by (induction es1) (simp_all add: episode_samples episode_no_samples bind_run_Inr bind_run_Inl)

lemma set_up_unknown_simulation:
  "arg_simulation a \<notin> set SIMULATION_ENVIRONMENTS \<Longrightarrow>
   set_up w a = ([Makedirs (arg_output a)], Inl (ValueError (unknown_simulation_msg (arg_simulation a))))"
  by (simp add: set_up_def copy_base_env_def run_simps Let_def prod_eq_iff)

lemma set_up_finish_rejected:
  "arg_simulation a \<in> set SIMULATION_ENVIRONMENTS \<Longrightarrow> \<not> finish_time_ok w \<Longrightarrow>
   set_up w a = (base_events w a, Inl Finish_time_rejected)"
  by (simp add: set_up_def copy_base_env_def check_finish_time_def base_events_def
      run_simps Let_def prod_eq_iff)

lemma set_up_unknown_executer:
  "arg_simulation a \<in> set SIMULATION_ENVIRONMENTS \<Longrightarrow> finish_time_ok w \<Longrightarrow>
   lower (arg_environment a) \<noteq> ''local'' \<Longrightarrow> lower (arg_environment a) \<noteq> ''slurm'' \<Longrightarrow>
   set_up w a = (base_events w a, Inl (ValueError (unknown_executer_msg (lower (arg_environment a)))))"
  by (simp add: set_up_def copy_base_env_def check_finish_time_def base_events_def create_buffer_def
      run_simps Let_def prod_eq_iff)

lemma set_up_resume:
  "arg_simulation a \<in> set SIMULATION_ENVIRONMENTS \<Longrightarrow> finish_time_ok w \<Longrightarrow>
   lower (arg_environment a) = ''local'' \<or> lower (arg_environment a) = ''slurm'' \<Longrightarrow>
   arg_checkpoint a \<noteq> [] \<Longrightarrow> history_episode w \<noteq> [] \<Longrightarrow>
   set_up w a =
     (base_events w a @ buffer_events a @
      [New_PPOAgent (arg_simulation a),
       Log_info (''Loading checkpoint from file '' @ arg_checkpoint a),
       Load_state (join (arg_output a) [arg_checkpoint a]),
       Set_n_fills (last (history_episode w) + 1),
       Get_end_time, Set_start_time (base_end_time w), Set_end_time (arg_finish a), Reset],
      Inr (last (history_episode w) + 1))"
  by (auto simp add: set_up_def copy_base_env_def check_finish_time_def base_events_def create_buffer_def
      buffer_events_def load_checkpoint_def Let_def
      run_simps bind_run_Inr prod_eq_iff)

lemma set_up_resume_empty_history:
  "arg_simulation a \<in> set SIMULATION_ENVIRONMENTS \<Longrightarrow> finish_time_ok w \<Longrightarrow>
   lower (arg_environment a) = ''local'' \<or> lower (arg_environment a) = ''slurm'' \<Longrightarrow>
   arg_checkpoint a \<noteq> [] \<Longrightarrow> history_episode w = [] \<Longrightarrow>
   set_up w a =
     (base_events w a @ buffer_events a @
      [New_PPOAgent (arg_simulation a),
       Log_info (''Loading checkpoint from file '' @ arg_checkpoint a),
       Load_state (join (arg_output a) [arg_checkpoint a])],
      Inl IndexError)"
  by (auto simp add: set_up_def copy_base_env_def check_finish_time_def base_events_def create_buffer_def
      buffer_events_def load_checkpoint_def Let_def
      run_simps bind_run_Inr prod_eq_iff)

lemma set_up_fresh:
  "arg_simulation a \<in> set SIMULATION_ENVIRONMENTS \<Longrightarrow> finish_time_ok w \<Longrightarrow>
   lower (arg_environment a) = ''local'' \<or> lower (arg_environment a) = ''slurm'' \<Longrightarrow>
   arg_checkpoint a = [] \<Longrightarrow>
   set_up w a =
     (base_events w a @ buffer_events a @
      [New_PPOAgent (arg_simulation a), Create_dummy_policy, Prepare,
       Get_end_time, Set_start_time (base_end_time w), Set_end_time (arg_finish a), Reset],
      Inr 0)"
  by (auto simp add: set_up_def copy_base_env_def check_finish_time_def base_events_def create_buffer_def
      buffer_events_def load_checkpoint_def Let_def
      run_simps bind_run_Inr prod_eq_iff)


lemma episode_training_events: "\<forall>ev\<in>set (fst (episode w tp n e)). training_event ev"
proof (cases "has_samples w e")
  case True
  obtain s ac r where obs: "observations w e = (s, ac, r)"
    by (cases "observations w e") auto
  show ?thesis
    by (simp add: episode_samples [OF True] episode_sequence_def obs)
next
  case False
  then show ?thesis
    by (simp add: episode_no_samples)
qed

lemma training_loop_training_events:
  "\<forall>ev\<in>set (fst (training_loop w tp n es)). training_event ev"
proof (induction es)
  case Nil
  show ?case by (simp add: fst_emit)
next
  case (Cons e es)
  then show ?case
    using episode_training_events [of w tp n e]
    by (auto simp add: fst_bind_run split: sum.splits)
qed

lemma fst_main:
  "fst (main w a) =
     fst (set_up w a) @
     (case snd (set_up w a) of
        Inl err \<Rightarrow> []
      | Inr s \<Rightarrow>
          fst (training_loop w (arg_output a) (arg_iter a) (range_py s (arg_iter a))) @
          (case snd (training_loop w (arg_output a) (arg_iter a) (range_py s (arg_iter a))) of
             Inl err \<Rightarrow> []
           | Inr u \<Rightarrow> [Log_training_time]))"
  by (simp add: main_def Let_def fst_bind_run fst_emit split: sum.splits)

lemma snd_main:
  "snd (main w a) =
     (case snd (set_up w a) of
        Inl err \<Rightarrow> Inl err
      | Inr s \<Rightarrow>
          (case snd (training_loop w (arg_output a) (arg_iter a) (range_py s (arg_iter a))) of
             Inl err \<Rightarrow> Inl err
           | Inr u \<Rightarrow> Inr ()))"
  by (simp add: main_def Let_def snd_bind_run snd_emit split: sum.splits)


lemma main_tail_training_events:
  "fst (main w a) = fst (set_up w a) @ post \<Longrightarrow> \<forall>ev\<in>set post. training_event ev"
  using training_loop_training_events [of w "arg_output a" "arg_iter a"]
  by (auto simp add: fst_main split: sum.splits)

lemma base_events_configuration: "ev \<in> set (base_events w a) \<Longrightarrow> configuration_event ev"
  by (auto simp add: base_events_def split: if_splits)

lemma buffer_events_configuration: "ev \<in> set (buffer_events a) \<Longrightarrow> configuration_event ev"
  by (auto simp add: buffer_events_def split: if_splits)


lemma set_up_resume_events:
  assumes "arg_simulation a \<in> set SIMULATION_ENVIRONMENTS" and "finish_time_ok w"
    and "lower (arg_environment a) = ''local'' \<or> lower (arg_environment a) = ''slurm''"
    and "arg_checkpoint a \<noteq> []" and "history_episode w \<noteq> []"
  shows "Set_n_fills (last (history_episode w) + 1) \<in> set (fst (set_up w a))"
    and "Set_n_fills n \<in> set (fst (set_up w a)) \<Longrightarrow> n = last (history_episode w) + 1"
    and "Prepare \<notin> set (fst (set_up w a))"
    and "Create_dummy_policy \<notin> set (fst (set_up w a))"
  by (auto simp add: set_up_resume [OF assms]
      dest: base_events_configuration buffer_events_configuration)

lemma set_up_configured:
  assumes "arg_simulation a \<in> set SIMULATION_ENVIRONMENTS" and "finish_time_ok w"
    and "lower (arg_environment a) = ''local'' \<or> lower (arg_environment a) = ''slurm''"
    and "arg_checkpoint a = [] \<or> history_episode w \<noteq> []"
  shows "\<exists>mid s. set_up w a =
      (base_events w a @ buffer_events a @ [New_PPOAgent (arg_simulation a)] @ mid @
       [Get_end_time, Set_start_time (base_end_time w), Set_end_time (arg_finish a), Reset],
       Inr s) \<and>
     (mid = [Create_dummy_policy, Prepare] \<or>
      mid = [Log_info (''Loading checkpoint from file '' @ arg_checkpoint a),
             Load_state (join (arg_output a) [arg_checkpoint a]),
             Set_n_fills s])"
proof (cases "arg_checkpoint a = []")
  case True
  from set_up_fresh [OF assms(1-3) True] show ?thesis
    by simp
next
  case False
  with assms(4) have "history_episode w \<noteq> []"
    by simp
  from set_up_resume [OF assms(1-3) False this] show ?thesis
    by simp
qed

lemma main_after_set_up:
  "set_up w a = (pre, Inr s) \<Longrightarrow>
   \<exists>post. fst (main w a) = pre @ post \<and> (\<forall>ev\<in>set post. training_event ev)"
  using main_tail_training_events [of w a] by (simp add: fst_main)

lemma snd_episode:
  "snd (episode w tp n e) = (if has_samples w e then Inr () else Inl ZeroDivisionError)"
  by (simp add: episode_samples episode_no_samples)

lemma snd_training_loop:
  "snd (training_loop w tp n es) =
     (if \<forall>e\<in>set es. has_samples w e then Inr () else Inl ZeroDivisionError)"
  by (induction es) (simp_all add: snd_emit snd_bind_run snd_episode)


lemma main_complete:
  assumes "set_up w a = (pre, Inr s)"
    and "\<forall>e\<in>set (range_py s (arg_iter a)). has_samples w e"
  shows "main w a =
    (pre @ concat (map (episode_sequence w (arg_output a) (arg_iter a)) (range_py s (arg_iter a)))
       @ [Log_training_time], Inr ())"
  by (simp add: main_def Let_def assms(1) training_loop_complete [OF assms(2)] run_simps)

lemma main_fails:
  assumes "set_up w a = (pre, Inr s)"
    and "range_py s (arg_iter a) = es1 @ e # es2"
    and "\<forall>e'\<in>set es1. has_samples w e'" and "\<not> has_samples w e"
  shows "main w a =
    (pre @ concat (map (episode_sequence w (arg_output a) (arg_iter a)) es1)
       @ [Log_info (''Start of episode '' @ str_int e), Fill, Get_observations],
     Inl ZeroDivisionError)"
  by (simp add: main_def Let_def assms(1,2) training_loop_fails [OF assms(3,4)] run_simps)


lemma example_world_samples: "has_samples example_world e"
  by (simp add: has_samples_def example_world_def)



subsection \<open>Fills and resets\<close>





subsection \<open>Updates\<close>

text \<open>An update of a run is the update of some episode, on the sequences read in that
  episode, and these are not empty.\<close>

lemma base_events_set_up: "list_all set_up_event (base_events w a)"
  by (simp add: base_events_def)

lemma buffer_events_set_up: "list_all set_up_event (buffer_events a)"
  by (simp add: buffer_events_def)

lemma set_up_events: "list_all set_up_event (fst (set_up w a))"
proof (cases "arg_simulation a \<in> set SIMULATION_ENVIRONMENTS")
  case False
  then show ?thesis
    by (simp add: set_up_unknown_simulation)
next
  case sim: True
  show ?thesis
  proof (cases "finish_time_ok w")
    case False
    with sim show ?thesis
      by (simp add: set_up_finish_rejected base_events_set_up)
  next
    case fin: True
    show ?thesis
    proof (cases "lower (arg_environment a) = ''local'' \<or> lower (arg_environment a) = ''slurm''")
      case False
      with sim fin show ?thesis
        by (simp add: set_up_unknown_executer base_events_set_up)
    next
      case ex: True
      show ?thesis
      proof (cases "arg_checkpoint a = []")
        case True
        from set_up_fresh [OF sim fin ex True] show ?thesis
          by (simp add: base_events_set_up buffer_events_set_up)
      next
        case ck: False
        show ?thesis
        proof (cases "history_episode w = []")
          case True
          from set_up_resume_empty_history [OF sim fin ex ck True] show ?thesis
            by (simp add: base_events_set_up buffer_events_set_up)
        next
          case False
          from set_up_resume [OF sim fin ex ck False] show ?thesis
            by (simp add: base_events_set_up buffer_events_set_up)
        qed
      qed
    qed
  qed
qed

lemma Update_not_in_set_up: "Update st ac rw \<notin> set (fst (set_up w a))"
  using set_up_events [of w a] by (auto simp add: list_all_iff)

lemma Update_in_episode:
  assumes "Update st ac rw \<in> set (fst (episode w tp n e))"
  shows "observations w e = (st, ac, rw) \<and> ac \<noteq> [] \<and> rw \<noteq> []"
proof (cases "has_samples w e")
  case True
  obtain st' ac' rw' where obs: "observations w e = (st', ac', rw')"
    by (cases "observations w e") auto
  with True assms show ?thesis
    by (auto simp add: episode_samples episode_sequence_def has_samples_def split: if_splits)
next
  case False
  with assms show ?thesis
    by (simp add: episode_no_samples)
qed

lemma Update_in_training_loop:
  "Update st ac rw \<in> set (fst (training_loop w tp n es)) \<Longrightarrow>
   \<exists>e\<in>set es. observations w e = (st, ac, rw) \<and> ac \<noteq> [] \<and> rw \<noteq> []"
proof (induction es)
  case Nil
  then show ?case
    by (simp add: fst_emit)
next
  case (Cons e es)
  then show ?case
    using Update_in_episode [of st ac rw w tp n e]
    by (auto simp add: fst_bind_run split: sum.splits)
qed

lemma Update_in_main:
  assumes "Update st ac rw \<in> set (fst (main w a))"
  shows "\<exists>e. observations w e = (st, ac, rw) \<and> ac \<noteq> [] \<and> rw \<noteq> []"
proof -
  from assms Update_not_in_set_up [of st ac rw w a]
  obtain s where "Update st ac rw \<in>
      set (fst (training_loop w (arg_output a) (arg_iter a) (range_py s (arg_iter a))))"
    by (auto simp add: fst_main split: sum.splits)
  from Update_in_training_loop [OF this] show ?thesis
    by blast
qed

lemma one_empty_set_up:
  "set_up one_empty_world example_args =
     ([Makedirs ''test_training'',
       Copytree ''/opt/drlfoam/openfoam/test_cases/rotatingCylinder2D'' ''test_training/base'',
       New_environment ''rotatingCylinder2D'',
       Set_env_path ''test_training/base'',
       Check_finish_time ''/opt/drlfoam'' 8 ''rotatingCylinder2D'',
       New_LocalBuffer ''test_training'' 4 4 60,
       New_PPOAgent ''rotatingCylinder2D'',
       Create_dummy_policy, Prepare,
       Get_end_time, Set_start_time 4, Set_end_time 8, Reset], Inr 0)"
  by (simp add: set_up_def one_empty_world_def example_world_def example_args_def Let_def
      copy_base_env_def SIMULATION_ENVIRONMENTS_def check_finish_time_def create_buffer_def
      load_checkpoint_def lower_def lower_char_def join_def join_step_def run_simps)

subsection \<open>File names\<close>

text \<open>The decimal digits of a natural number determine it, so the files of different
  episodes have different names.\<close>

lemma digit_char_inj: "d < 10 \<Longrightarrow> d' < 10 \<Longrightarrow> digit_char d = digit_char d' \<Longrightarrow> d = d'"
  using nth_eq_iff_index_eq [of "''0123456789''" d d']
  by (simp add: digit_char_def)

lemma str_nat_nonempty: "str_nat n \<noteq> []"
  by (subst str_nat.simps) simp

lemma str_nat_inj: "str_nat n = str_nat m \<Longrightarrow> n = m"
proof (induction n arbitrary: m rule: str_nat.induct)
  case (1 n)
  show ?case
  proof (cases "n < 10")
    case n: True
    show ?thesis
    proof (cases "m < 10")
      case True
      with n "1.prems" show ?thesis
        by (simp add: str_nat.simps [of n] str_nat.simps [of m] digit_char_inj)
    next
      case False
      with n "1.prems" str_nat_nonempty [of "m div 10"] show ?thesis
        by (auto simp add: str_nat.simps [of n] str_nat.simps [of m])
    qed
  next
    case n: False
    show ?thesis
    proof (cases "m < 10")
      case True
      with n "1.prems" str_nat_nonempty [of "n div 10"] show ?thesis
        by (auto simp add: str_nat.simps [of n] str_nat.simps [of m])
    next
      case False
      with n "1.prems" have "str_nat (n div 10) = str_nat (m div 10)"
        and d: "digit_char (n mod 10) = digit_char (m mod 10)"
        by (simp_all add: str_nat.simps [of n] str_nat.simps [of m])
      with "1.IH" n have "n div 10 = m div 10"
        by simp
      moreover from d have "n mod 10 = m mod 10"
        by (simp add: digit_char_inj)
      ultimately show ?thesis
        by (metis div_mult_mod_eq)
    qed
  qed
qed

lemma str_int_inj: "0 \<le> i \<Longrightarrow> 0 \<le> j \<Longrightarrow> str_int i = str_int j \<Longrightarrow> i = j"
  using str_nat_inj [of "nat i" "nat j"] by (simp add: str_int_def)

lemma join_file_inj:
  assumes "join tp [c # x] = join tp [c # y]" and "c \<noteq> CHR ''/''"
  shows "x = y"
  using assms by (simp add: join_def join_step_def split: if_splits)

lemma checkpoint_names_distinct:
  "distinct (map (\<lambda>e. join tp [''checkpoint_'' @ str_int e @ ''.pt'']) [0..n])"
proof -
  have "inj_on (\<lambda>e. join tp [''checkpoint_'' @ str_int e @ ''.pt'']) (set [0..n])"
  proof (rule inj_onI)
    fix i j
    assume "i \<in> set [0..n]" and "j \<in> set [0..n]"
      and "join tp [''checkpoint_'' @ str_int i @ ''.pt''] = join tp [''checkpoint_'' @ str_int j @ ''.pt'']"
    then have "0 \<le> i" "0 \<le> j" "str_int i = str_int j"
      using join_file_inj [of tp "CHR ''c''" "''heckpoint_'' @ str_int i @ ''.pt''"
          "''heckpoint_'' @ str_int j @ ''.pt''"]
      by simp_all
    then show "i = j"
      by (rule str_int_inj)
  qed
  then show ?thesis
    by (simp add: distinct_map)
qed

lemma policy_names_distinct:
  "distinct (map (\<lambda>e. join tp [''policy_trace_'' @ str_int e @ ''.pt'']) [0..n])"
proof -
  have "inj_on (\<lambda>e. join tp [''policy_trace_'' @ str_int e @ ''.pt'']) (set [0..n])"
  proof (rule inj_onI)
    fix i j
    assume "i \<in> set [0..n]" and "j \<in> set [0..n]"
      and "join tp [''policy_trace_'' @ str_int i @ ''.pt''] = join tp [''policy_trace_'' @ str_int j @ ''.pt'']"
    then have "0 \<le> i" "0 \<le> j" "str_int i = str_int j"
      using join_file_inj [of tp "CHR ''p''" "''olicy_trace_'' @ str_int i @ ''.pt''"
          "''olicy_trace_'' @ str_int j @ ''.pt''"]
      by simp_all
    then show "i = j"
      by (rule str_int_inj)
  qed
  then show ?thesis
    by (simp add: distinct_map)
qed

lemma saved_states_append: "saved_states (xs @ ys) = saved_states xs @ saved_states ys"
  by (simp add: saved_states_def)

lemma saved_policies_append: "saved_policies (xs @ ys) = saved_policies xs @ saved_policies ys"
  by (simp add: saved_policies_def)

lemma saved_episode_sequence:
  "saved_states (episode_sequence w tp n e) = [join tp [''checkpoint_'' @ str_int e @ ''.pt'']]"
  "saved_policies (episode_sequence w tp n e) = [join tp [''policy_trace_'' @ str_int e @ ''.pt'']]"
  by (cases "observations w e"; simp add: episode_sequence_def saved_states_def saved_policies_def)+

lemma saved_episodes:
  "saved_states (concat (map (episode_sequence w tp n) es)) =
     map (\<lambda>e. join tp [''checkpoint_'' @ str_int e @ ''.pt'']) es"
  "saved_policies (concat (map (episode_sequence w tp n) es)) =
     map (\<lambda>e. join tp [''policy_trace_'' @ str_int e @ ''.pt'']) es"
  by (induction es) (simp_all add: saved_states_append saved_policies_append saved_episode_sequence,
      simp_all add: saved_states_def saved_policies_def)

lemma saved_set_up_fresh:
  assumes "arg_simulation a \<in> set SIMULATION_ENVIRONMENTS" and "finish_time_ok w"
    and "lower (arg_environment a) = ''local'' \<or> lower (arg_environment a) = ''slurm''"
    and "arg_checkpoint a = []"
  shows "saved_states (fst (set_up w a)) = []" and "saved_policies (fst (set_up w a)) = []"
  by (simp_all add: set_up_fresh [OF assms] saved_states_def saved_policies_def
      base_events_def buffer_events_def)

section \<open>The claims\<close>

subsection \<open>Resuming from a checkpoint\<close>

text \<open>Claim C1. In a run that is given a checkpoint file and whose loaded history ends
  with episode \<open>k\<close> (and that passes the checks of the simulation name, the finish time and
  the backend, which come first), the set-up returns \<open>k + 1\<close> as \<^verbatim>\<open>starting_episode\<close>, the
  one assignment to \<^verbatim>\<open>buffer._n_fills\<close> stores \<open>k + 1\<close>, neither \<^verbatim>\<open>buffer.prepare()\<close> nor
  \<^verbatim>\<open>create_dummy_policy\<close> is called anywhere in the run, and the loop runs over
  \<^verbatim>\<open>range(k + 1, episodes)\<close>.\<close>

theorem resume_correctness:
  assumes "arg_simulation a \<in> set SIMULATION_ENVIRONMENTS" and "finish_time_ok w"
    and "lower (arg_environment a) = ''local'' \<or> lower (arg_environment a) = ''slurm''"
    and "arg_checkpoint a \<noteq> []" and "history_episode w \<noteq> []"
    and "last (history_episode w) = k"
  shows "snd (set_up w a) = Inr (k + 1) \<and>
    Set_n_fills (k + 1) \<in> set (fst (main w a)) \<and>
    (\<forall>n. Set_n_fills n \<in> set (fst (main w a)) \<longrightarrow> n = k + 1) \<and>
    Prepare \<notin> set (fst (main w a)) \<and>
    Create_dummy_policy \<notin> set (fst (main w a)) \<and>
    main w a =
      bind_run (set_up w a) (\<lambda>_.
      bind_run (training_loop w (arg_output a) (arg_iter a) (range_py (k + 1) (arg_iter a))) (\<lambda>_.
      emit [Log_training_time]))"
proof -
  note su = set_up_resume [OF assms(1-5), unfolded assms(6)]
  note pre = set_up_resume_events [OF assms(1-5), unfolded assms(6)]
  obtain post where m: "fst (main w a) = fst (set_up w a) @ post"
    by (simp add: fst_main)
  then have tr: "\<forall>ev\<in>set post. training_event ev"
    by (rule main_tail_training_events)
  have 1: "snd (set_up w a) = Inr (k + 1)"
    by (simp add: su)
  have 2: "Set_n_fills (k + 1) \<in> set (fst (main w a))"
    using pre(1) by (simp add: m)
  have 3: "n = k + 1" if "Set_n_fills n \<in> set (fst (main w a))" for n
  proof -
    from that have "Set_n_fills n \<in> set (fst (set_up w a)) \<or> Set_n_fills n \<in> set post"
      by (simp add: m)
    then show ?thesis
      using pre(2) tr by auto
  qed
  have 4: "Prepare \<notin> set (fst (main w a))"
    using pre(3) tr by (auto simp add: m)
  have 5: "Create_dummy_policy \<notin> set (fst (main w a))"
    using pre(4) tr by (auto simp add: m)
  have 6: "main w a =
      bind_run (set_up w a) (\<lambda>_.
      bind_run (training_loop w (arg_output a) (arg_iter a) (range_py (k + 1) (arg_iter a))) (\<lambda>_.
      emit [Log_training_time]))"
    by (simp add: main_def Let_def su bind_run_Inr)
  from 1 2 3 4 5 6 show ?thesis
    by blast
qed


theorem resume_correctness_witness:
  "arg_checkpoint resume_args \<noteq> [] \<and>
   last (history_episode example_world) = 2 \<and>
   snd (set_up example_world resume_args) = Inr 3 \<and>
   Set_n_fills 3 \<in> set (fst (main example_world resume_args)) \<and>
   Prepare \<notin> set (fst (main example_world resume_args)) \<and>
   Create_dummy_policy \<notin> set (fst (main example_world resume_args))"
proof -
  have h1: "arg_simulation resume_args \<in> set SIMULATION_ENVIRONMENTS"
    by (simp add: resume_args_def example_args_def SIMULATION_ENVIRONMENTS_def)
  have h2: "finish_time_ok example_world"
    by (simp add: example_world_def)
  have h3: "lower (arg_environment resume_args) = ''local'' \<or>
      lower (arg_environment resume_args) = ''slurm''"
    by (simp add: resume_args_def example_args_def lower_def lower_char_def)
  have h4: "arg_checkpoint resume_args \<noteq> []"
    by (simp add: resume_args_def)
  have h5: "history_episode example_world \<noteq> []"
    by (simp add: example_world_def)
  have h6: "last (history_episode example_world) = 2"
    by (simp add: example_world_def)
  have k: "(2::int) + 1 = 3"
    by simp
  from resume_correctness [OF h1 h2 h3 h4 h5 h6, unfolded k] h4 h6 show ?thesis
    by blast
qed

subsection \<open>Configuration errors\<close>






text \<open>Claim C10. The backend is selected on the lowercased option value: in a run that
  passes the checks of the simulation name and the finish time, a value whose lowercase
  form is \<^verbatim>\<open>local\<close> constructs a \<^verbatim>\<open>LocalBuffer\<close>, one whose lowercase form is \<^verbatim>\<open>slurm\<close>
  a \<^verbatim>\<open>SlurmBuffer\<close>, and no \<^verbatim>\<open>ValueError\<close> leaves \<^verbatim>\<open>main\<close>; \<^verbatim>\<open>Local\<close>, \<^verbatim>\<open>LOCAL\<close> and
  \<^verbatim>\<open>Slurm\<close> are such values.\<close>

theorem backend_case_insensitive:
  assumes "arg_simulation a \<in> set SIMULATION_ENVIRONMENTS" and "finish_time_ok w"
  shows "(lower (arg_environment a) = ''local'' \<longrightarrow>
      New_LocalBuffer (arg_output a) (arg_buffer a) (arg_runners a) (arg_timeout a)
        \<in> set (fst (main w a)) \<and>
      (\<forall>msg. snd (main w a) \<noteq> Inl (ValueError msg))) \<and>
    (lower (arg_environment a) = ''slurm'' \<longrightarrow>
      New_SlurmBuffer (arg_output a) (arg_buffer a) (arg_runners a) (arg_timeout a)
        \<in> set (fst (main w a)) \<and>
      (\<forall>msg. snd (main w a) \<noteq> Inl (ValueError msg))) \<and>
    lower ''Local'' = ''local'' \<and> lower ''LOCAL'' = ''local'' \<and> lower ''Slurm'' = ''slurm''"
proof -
  have l: "lower ''Local'' = ''local'' \<and> lower ''LOCAL'' = ''local'' \<and> lower ''Slurm'' = ''slurm''"
    by (simp add: lower_def lower_char_def)
  have no_value_error: "snd (main w a) \<noteq> Inl (ValueError msg)"
    if "lower (arg_environment a) = ''local'' \<or> lower (arg_environment a) = ''slurm''" for msg
  proof (cases "arg_checkpoint a = [] \<or> history_episode w \<noteq> []")
    case True
    from set_up_configured [OF assms that True] obtain pre s where "set_up w a = (pre, Inr s)"
      by blast
    then show ?thesis
      by (simp add: snd_main snd_training_loop)
  next
    case False
    with set_up_resume_empty_history [OF assms that] show ?thesis
      by (simp add: snd_main)
  qed
  have in_trace: "set (buffer_events a) \<subseteq> set (fst (main w a))"
    if b: "lower (arg_environment a) = ''local'' \<or> lower (arg_environment a) = ''slurm''"
  proof (cases "arg_checkpoint a = [] \<or> history_episode w \<noteq> []")
    case True
    from set_up_configured [OF assms b True] show ?thesis
      by (auto simp add: fst_main)
  next
    case False
    with set_up_resume_empty_history [OF assms b] show ?thesis
      by (auto simp add: fst_main)
  qed
  have local: "New_LocalBuffer (arg_output a) (arg_buffer a) (arg_runners a) (arg_timeout a)
      \<in> set (fst (main w a))" if "lower (arg_environment a) = ''local''"
    using in_trace that by (auto simp add: buffer_events_def)
  have slurm: "New_SlurmBuffer (arg_output a) (arg_buffer a) (arg_runners a) (arg_timeout a)
      \<in> set (fst (main w a))" if "lower (arg_environment a) = ''slurm''"
    using in_trace that by (auto simp add: buffer_events_def)
  from l no_value_error local slurm show ?thesis
    by blast
qed

theorem backend_case_insensitive_witness:
  "lower ''LOCAL'' = ''local'' \<and>
   New_LocalBuffer ''test_training'' 4 4 60
     \<in> set (fst (main example_world (example_args\<lparr>arg_environment := ''LOCAL''\<rparr>))) \<and>
   snd (main example_world (example_args\<lparr>arg_environment := ''LOCAL''\<rparr>))
     \<noteq> Inl (ValueError (unknown_executer_msg ''local''))"
proof -
  let ?a = "example_args\<lparr>arg_environment := ''LOCAL''\<rparr>"
  have h1: "arg_simulation ?a \<in> set SIMULATION_ENVIRONMENTS"
    by (simp add: example_args_def SIMULATION_ENVIRONMENTS_def)
  have h2: "finish_time_ok example_world"
    by (simp add: example_world_def)
  have l: "lower (arg_environment ?a) = ''local''"
    by (simp add: lower_def lower_char_def)
  have v: "arg_output ?a = ''test_training''" "arg_buffer ?a = 4" "arg_runners ?a = 4"
    "arg_timeout ?a = 60"
    by (simp_all add: example_args_def)
  from backend_case_insensitive [OF h1 h2, of] l
  have "New_LocalBuffer (arg_output ?a) (arg_buffer ?a) (arg_runners ?a) (arg_timeout ?a)
      \<in> set (fst (main example_world ?a)) \<and>
    (\<forall>msg. snd (main example_world ?a) \<noteq> Inl (ValueError msg))"
    by blast
  with l show ?thesis
    unfolding v by simp
qed

subsection \<open>The time window\<close>

text \<open>Claim C9. In every run that gets past the configuration, fresh or resumed, the
  driver reads \<^verbatim>\<open>buffer.base_env.end_time\<close>, assigns that value to \<^verbatim>\<open>start_time\<close>, assigns
  the \<^verbatim>\<open>--finish\<close> value to \<^verbatim>\<open>end_time\<close> and calls \<^verbatim>\<open>buffer.reset()\<close>, in this order, and
  nothing before these four events is a reset, a fill or another assignment to the time
  window.\<close>

theorem time_window_handoff:
  assumes "arg_simulation a \<in> set SIMULATION_ENVIRONMENTS" and "finish_time_ok w"
    and "lower (arg_environment a) = ''local'' \<or> lower (arg_environment a) = ''slurm''"
    and "arg_checkpoint a = [] \<or> history_episode w \<noteq> []"
  shows "\<exists>pre post.
    fst (main w a) =
      pre @ [Get_end_time, Set_start_time (base_end_time w), Set_end_time (arg_finish a), Reset] @ post \<and>
    Reset \<notin> set pre \<and> Fill \<notin> set pre \<and>
    (\<forall>t. Set_start_time t \<notin> set pre \<and> Set_end_time t \<notin> set pre)"
proof -
  from set_up_configured [OF assms] obtain mid s where
    su: "set_up w a =
      (base_events w a @ buffer_events a @ [New_PPOAgent (arg_simulation a)] @ mid @
       [Get_end_time, Set_start_time (base_end_time w), Set_end_time (arg_finish a), Reset],
       Inr s)"
    and mid: "mid = [Create_dummy_policy, Prepare] \<or>
      mid = [Log_info (''Loading checkpoint from file '' @ arg_checkpoint a),
             Load_state (join (arg_output a) [arg_checkpoint a]),
             Set_n_fills s]"
    by blast
  let ?pre = "base_events w a @ buffer_events a @ [New_PPOAgent (arg_simulation a)] @ mid"
  from main_after_set_up [OF su] obtain post where
    "fst (main w a) =
      ?pre @ [Get_end_time, Set_start_time (base_end_time w), Set_end_time (arg_finish a), Reset] @ post"
    by auto
  moreover have "Reset \<notin> set ?pre" "Fill \<notin> set ?pre"
    "\<And>t. Set_start_time t \<notin> set ?pre" "\<And>t. Set_end_time t \<notin> set ?pre"
    using mid by (auto dest: base_events_configuration buffer_events_configuration)
  ultimately show ?thesis
    by blast
qed

theorem time_window_handoff_witness:
  "\<exists>pre post.
    fst (main example_world resume_args) =
      pre @ [Get_end_time, Set_start_time 4, Set_end_time 8, Reset] @ post \<and>
    Reset \<notin> set pre \<and> Fill \<notin> set pre \<and>
    (\<forall>t. Set_start_time t \<notin> set pre \<and> Set_end_time t \<notin> set pre)"
proof -
  have h1: "arg_simulation resume_args \<in> set SIMULATION_ENVIRONMENTS"
    by (simp add: resume_args_def example_args_def SIMULATION_ENVIRONMENTS_def)
  have h2: "finish_time_ok example_world"
    by (simp add: example_world_def)
  have h3: "lower (arg_environment resume_args) = ''local'' \<or>
      lower (arg_environment resume_args) = ''slurm''"
    by (simp add: resume_args_def example_args_def lower_def lower_char_def)
  have h4: "arg_checkpoint resume_args = [] \<or> history_episode example_world \<noteq> []"
    by (simp add: example_world_def)
  have v: "base_end_time example_world = 4" "arg_finish resume_args = 8"
    by (simp_all add: example_world_def resume_args_def example_args_def)
  from time_window_handoff [OF h1 h2 h3 h4, unfolded v] show ?thesis .
qed

subsection \<open>The episodes\<close>





text \<open>Claim C7. A fresh run (no checkpoint given) that passes the configuration and whose
  episodes \<open>0, \<dots>, episodes - 1\<close> all have samples returns normally, and the files it writes
  with \<^verbatim>\<open>agent.save_state\<close> are \<^verbatim>\<open>checkpoint_e.pt\<close> in the training directory for
  \<open>e = 0, 1, \<dots>, episodes - 1\<close>, one per episode and in this order; likewise the files
  \<^verbatim>\<open>policy_trace_e.pt\<close> written with \<^verbatim>\<open>current_policy.save\<close>. The names of different
  episodes differ.\<close>

theorem checkpoint_files:
  assumes "arg_simulation a \<in> set SIMULATION_ENVIRONMENTS" and "finish_time_ok w"
    and "lower (arg_environment a) = ''local'' \<or> lower (arg_environment a) = ''slurm''"
    and "arg_checkpoint a = []"
    and "\<forall>e\<in>set [0..arg_iter a - 1]. has_samples w e"
  shows "snd (main w a) = Inr () \<and>
    saved_states (fst (main w a)) =
      map (\<lambda>e. join (arg_output a) [''checkpoint_'' @ str_int e @ ''.pt'']) [0..arg_iter a - 1] \<and>
    saved_policies (fst (main w a)) =
      map (\<lambda>e. join (arg_output a) [''policy_trace_'' @ str_int e @ ''.pt'']) [0..arg_iter a - 1] \<and>
    distinct (saved_states (fst (main w a))) \<and>
    distinct (saved_policies (fst (main w a)))"
proof -
  obtain pre where su: "set_up w a = (pre, Inr 0)"
    using set_up_fresh [OF assms(1-4)] by simp
  have pre: "saved_states pre = []" "saved_policies pre = []"
    using saved_set_up_fresh [OF assms(1-4)] by (simp_all add: su)
  have all: "\<forall>e\<in>set (range_py 0 (arg_iter a)). has_samples w e"
    using assms(5) by (simp add: range_py_def)
  note m = main_complete [OF su all]
  have 1: "snd (main w a) = Inr ()"
    by (simp add: m)
  have 2: "saved_states (fst (main w a)) =
      map (\<lambda>e. join (arg_output a) [''checkpoint_'' @ str_int e @ ''.pt'']) [0..arg_iter a - 1]"
    by (simp add: m saved_states_append pre saved_episodes range_py_def)
       (simp add: saved_states_def)
  have 3: "saved_policies (fst (main w a)) =
      map (\<lambda>e. join (arg_output a) [''policy_trace_'' @ str_int e @ ''.pt'']) [0..arg_iter a - 1]"
    by (simp add: m saved_policies_append pre saved_episodes range_py_def)
       (simp add: saved_policies_def)
  from 1 2 3 show ?thesis
    by (simp only: checkpoint_names_distinct policy_names_distinct simp_thms)
qed

theorem checkpoint_files_witness:
  "arg_checkpoint example_args = [] \<and>
   snd (main example_world example_args) = Inr () \<and>
   saved_states (fst (main example_world example_args)) =
     [''test_training/checkpoint_0.pt'', ''test_training/checkpoint_1.pt''] \<and>
   saved_policies (fst (main example_world example_args)) =
     [''test_training/policy_trace_0.pt'', ''test_training/policy_trace_1.pt'']"
proof -
  have h1: "arg_simulation example_args \<in> set SIMULATION_ENVIRONMENTS"
    by (simp add: example_args_def SIMULATION_ENVIRONMENTS_def)
  have h2: "finish_time_ok example_world"
    by (simp add: example_world_def)
  have h3: "lower (arg_environment example_args) = ''local'' \<or>
      lower (arg_environment example_args) = ''slurm''"
    by (simp add: example_args_def lower_def lower_char_def)
  have h4: "arg_checkpoint example_args = []"
    by (simp add: example_args_def)
  have h5: "\<forall>e\<in>set [0..arg_iter example_args - 1]. has_samples example_world e"
    by (simp add: example_world_samples)
  have v: "[0..arg_iter example_args - 1] = [0, 1]" "arg_output example_args = ''test_training''"
    by (simp_all add: example_args_def upto.simps)
  have n: "map (\<lambda>e. join ''test_training'' [''checkpoint_'' @ str_int e @ ''.pt'']) [0, 1] =
      [''test_training/checkpoint_0.pt'', ''test_training/checkpoint_1.pt'']"
    "map (\<lambda>e. join ''test_training'' [''policy_trace_'' @ str_int e @ ''.pt'']) [0, 1] =
      [''test_training/policy_trace_0.pt'', ''test_training/policy_trace_1.pt'']"
    by (simp_all add: join_def join_step_def str_int_def str_nat.simps digit_char_def)
  from checkpoint_files [OF h1 h2 h3 h4 h5] h4 show ?thesis
    unfolding v n by blast
qed

subsection \<open>Fills without a trajectory\<close>

text \<open>Claim C4. \<^verbatim>\<open>agent.update\<close> is never called on empty sequences: every update of a run
  has at least one action and one reward tensor. And when the fill of an episode the loop
  is to run leaves \<^verbatim>\<open>buffer.observations\<close> with three empty sequences, the run does not
  return normally: \<^verbatim>\<open>ZeroDivisionError\<close> leaves \<^verbatim>\<open>main\<close>, raised by the division by
  \<^verbatim>\<open>len(rt)\<close> in \<^verbatim>\<open>print_statistics\<close>, which comes before \<^verbatim>\<open>agent.update\<close>.\<close>

theorem total_fill_failure:
  "(\<forall>states actions rewards.
      Update states actions rewards \<in> set (fst (main w a)) \<longrightarrow> actions \<noteq> [] \<and> rewards \<noteq> []) \<and>
   (\<forall>pre s e.
      set_up w a = (pre, Inr s) \<and> e \<in> set (range_py s (arg_iter a)) \<and>
      observations w e = ([], [], []) \<longrightarrow>
      snd (main w a) = Inl ZeroDivisionError)"
proof -
  have 1: "actions \<noteq> [] \<and> rewards \<noteq> []"
    if "Update states actions rewards \<in> set (fst (main w a))" for states actions rewards
    using Update_in_main [OF that] by blast
  have 2: "snd (main w a) = Inl ZeroDivisionError"
    if "set_up w a = (pre, Inr s)" and "e \<in> set (range_py s (arg_iter a))"
      and "observations w e = ([], [], [])" for pre s e
  proof -
    from that(3) have "\<not> has_samples w e"
      by (simp add: has_samples_def)
    with that(2) have "\<not> (\<forall>e\<in>set (range_py s (arg_iter a)). has_samples w e)"
      by blast
    then show ?thesis
      by (simp add: snd_main that(1) snd_training_loop)
  qed
  from 1 2 show ?thesis
    by blast
qed

theorem total_fill_failure_witness:
  "1 \<in> set (range_py 0 (arg_iter example_args)) \<and>
   observations one_empty_world 1 = ([], [], []) \<and>
   snd (main one_empty_world example_args) = Inl ZeroDivisionError"
proof -
  have h2: "1 \<in> set (range_py 0 (arg_iter example_args))"
    by (simp add: range_py_def example_args_def)
  have h3: "observations one_empty_world 1 = ([], [], [])"
    by (simp add: one_empty_world_def)
  from total_fill_failure [of one_empty_world example_args] one_empty_set_up h2 h3
  have "snd (main one_empty_world example_args) = Inl ZeroDivisionError"
    by blast
  with h2 h3 show ?thesis
    by blast
qed

text \<open>Claim C8 says that the statistics step only logs and has no influence on the course of
  the run. On a fill without a trajectory it has: \<^verbatim>\<open>print_statistics([], [])\<close> raises
  \<^verbatim>\<open>ZeroDivisionError\<close>, and the run of the end-to-end scenario stops in episode 0, after
  the read of the observations and before \<^verbatim>\<open>agent.update\<close>.\<close>

theorem statistics_abort_on_empty_batch:
  "observations no_trajectory_world 0 = ([], [], []) \<and>
   print_statistics ([] :: nat list) [] = (([] :: (nat, nat) event list), Inl ZeroDivisionError) \<and>
   main no_trajectory_world example_args =
     ([Makedirs ''test_training'',
       Copytree ''/opt/drlfoam/openfoam/test_cases/rotatingCylinder2D'' ''test_training/base'',
       New_environment ''rotatingCylinder2D'',
       Set_env_path ''test_training/base'',
       Check_finish_time ''/opt/drlfoam'' 8 ''rotatingCylinder2D'',
       New_LocalBuffer ''test_training'' 4 4 60,
       New_PPOAgent ''rotatingCylinder2D'',
       Create_dummy_policy, Prepare,
       Get_end_time, Set_start_time 4, Set_end_time 8, Reset,
       Log_info ''Start of episode 0'', Fill, Get_observations],
      Inl ZeroDivisionError)"
  by (simp add: main_def set_up_def no_trajectory_world_def example_world_def example_args_def Let_def
      copy_base_env_def SIMULATION_ENVIRONMENTS_def check_finish_time_def create_buffer_def
      load_checkpoint_def lower_def lower_char_def join_def join_step_def run_simps
      range_py_def upto.simps episode_def print_statistics_def raise_def
      str_int_def str_nat.simps digit_char_def)

end
